theory Spec2Isabelle
  imports Main "HOL-Library.Word"
begin

unbundle bit_operations_syntax

section \<open>MBRScan: the plugin's generator over a physical layer\<close>

text \<open>
  The development embeds \<^verbatim>\<open>MBRScan._generator\<close> of
  \<^verbatim>\<open>volatility3/framework/plugins/windows/mbrscan.py\<close>. Python \<^verbatim>\<open>bytes\<close> are lists
  of 8-bit words, Python integers are \<open>int\<close>, an exception is the left summand of a sum
  type, and what the generator does to the outside (the read it asks of the layer, the rows
  it yields, the entries it logs) is an ordered list of events.
\<close>

subsection \<open>Bytes\<close>

type_synonym byte = "8 word"
type_synonym bytes = "byte list"

text \<open>
  \<^verbatim>\<open>bytes.count(sub)\<close>: the number of non-overlapping occurrences of \<open>sub\<close>, found
  from left to right; for the empty \<open>sub\<close> Python answers \<open>len + 1\<close>.
\<close>

function count :: "bytes \<Rightarrow> bytes \<Rightarrow> nat" where
  "count bs sub =
     (if sub = [] then length bs + 1
      else if length bs < length sub then 0
      else if take (length sub) bs = sub then 1 + count (drop (length sub) bs) sub
      else count (tl bs) sub)"
  by pat_completeness auto
termination
  by (relation "measure (\<lambda>(bs, sub). length bs)") (auto simp: neq_Nil_conv)

declare count.simps [simp del]

text \<open>The all-bytes-zero predicate, in the words of the design (section 4.2 of the spec).\<close>

definition every_byte_zero :: "bytes \<Rightarrow> bool" where
  "every_byte_zero bs = list_all (\<lambda>b. b = 0x00) bs"

subsection \<open>Exceptions, rows and events\<close>

text \<open>
  The generator has no \<^verbatim>\<open>try\<close>: whatever a collaborator raises leaves it. Its own code
  can raise \<^verbatim>\<open>UnboundLocalError\<close>, when a local variable is read before any assignment.
\<close>

datatype exn =
    UnboundLocalError string
  | External string

datatype level = LOGLEVEL_VV

datatype disassembly = Disassembly bytes int string

text \<open>
  One yielded tuple, its fields named after the columns that \<^verbatim>\<open>run\<close> gives the
  \<^verbatim>\<open>TreeGrid\<close>, in the order of lines 75 to 81.
\<close>

record row =
  physical_offset :: int
  disk_signature :: string
  bootcode_md5 :: string
  bootcode_full_md5 :: string
  partition_entries_info :: string
  disasm :: disassembly
  hexdump :: bytes

text \<open>
  \<open>ReadCall offset length pad\<close> is the call \<^verbatim>\<open>layer.read(offset, length, pad = pad)\<close> of
  line 56, \<open>Yield level row\<close> the \<^verbatim>\<open>yield\<close> of line 74, and \<open>Log level text offset\<close> the
  \<^verbatim>\<open>vollog.log\<close> of line 84 with the offset it formats into the message.
\<close>

datatype event =
    ReadCall int int bool
  | Yield nat row
  | Log level string int

fun read_calls :: "event list \<Rightarrow> (int \<times> int \<times> bool) list" where
  "read_calls [] = []"
| "read_calls (ReadCall offset len pad # evs) = (offset, len, pad) # read_calls evs"
| "read_calls (_ # evs) = read_calls evs"

fun yielded :: "event list \<Rightarrow> row list" where
  "yielded [] = []"
| "yielded (Yield _ r # evs) = r # yielded evs"
| "yielded (_ # evs) = yielded evs"

fun logged :: "event list \<Rightarrow> (level \<times> string \<times> int) list" where
  "logged [] = []"
| "logged (Log lv text offset # evs) = (lv, text, offset) # logged evs"
| "logged (_ # evs) = logged evs"

subsection \<open>The collaborators\<close>

text \<open>
  The physical layer is a parameter: its name, the hits \<^verbatim>\<open>layer.scan\<close> produces for a
  \<^verbatim>\<open>MultiStringScanner\<close> over the given patterns (pairs of offset and matched pattern, in
  the order the scan yields them), and \<^verbatim>\<open>layer.read(offset, length, pad)\<close>, which may raise.
\<close>

record layer =
  name :: string
  scan :: "bytes list \<Rightarrow> (int \<times> bytes) list"
  read :: "int \<Rightarrow> int \<Rightarrow> bool \<Rightarrow> exn + bytes"

text \<open>
  Modelled from the spec: \<^verbatim>\<open>mbr.PARTITION_TABLE\<close>, \<^verbatim>\<open>mbr.PARTITION_ENTRY\<close> and the object
  framework behind \<^verbatim>\<open>self.context.object\<close> are not under src/. An object is a typed view
  of a layer at an offset and reads nothing when it is made; the table's four entries are
  its members at \<open>0x1BE\<close>, \<open>0x1CE\<close>, \<open>0x1DE\<close> and \<open>0x1EE\<close> (section 4.3), and
  \<^verbatim>\<open>set_index\<close> attaches the index to the entry object (section 9).
\<close>

record partition_table =
  table_layer_name :: string
  table_offset :: int

record partition_entry =
  entry_layer_name :: string
  entry_offset :: int
  entry_index :: "nat option"

definition context_object :: "int \<Rightarrow> string \<Rightarrow> partition_table" where
  "context_object offset layer_name =
     \<lparr>table_layer_name = layer_name, table_offset = offset\<rparr>"

definition member_entry :: "partition_table \<Rightarrow> int \<Rightarrow> partition_entry" where
  "member_entry t relative_offset =
     \<lparr>entry_layer_name = table_layer_name t,
      entry_offset = table_offset t + relative_offset,
      entry_index = None\<rparr>"

definition FirstEntry :: "partition_table \<Rightarrow> partition_entry" where
  "FirstEntry t = member_entry t 0x1BE"

definition SecondEntry :: "partition_table \<Rightarrow> partition_entry" where
  "SecondEntry t = member_entry t 0x1CE"

definition ThirdEntry :: "partition_table \<Rightarrow> partition_entry" where
  "ThirdEntry t = member_entry t 0x1DE"

definition FourthEntry :: "partition_table \<Rightarrow> partition_entry" where
  "FourthEntry t = member_entry t 0x1EE"

definition set_index :: "nat \<Rightarrow> partition_entry \<Rightarrow> partition_entry" where
  "set_index i e = e\<lparr>entry_index := Some i\<rparr>"

text \<open>
  What the plugin finds around itself: the physical layer, whether the kernel's symbol
  table is 64-bit (\<^verbatim>\<open>symbols.symbol_table_is_64bit\<close>), and three functions whose code is
  not under src/ and whose result the spec does not fix, taken as parameters:
  \<^verbatim>\<open>str(partition_entry_object)\<close> and \<^verbatim>\<open>partition_table.get_disk_signature()\<close>, which read
  the object's fields from its layer and so may raise, and \<^verbatim>\<open>hashlib.md5\<close>, as the function
  from the hashed bytes to the 128-bit digest.
\<close>

record env =
  layer :: layer
  is_64bit :: bool
  entry_str :: "partition_entry \<Rightarrow> exn + string"
  get_disk_signature :: "partition_table \<Rightarrow> exn + string"
  md5 :: "bytes \<Rightarrow> 128 word"

text \<open>
  \<^verbatim>\<open>hexdigest()\<close>: the sixteen bytes of the digest, first byte first, each as two lowercase
  hexadecimal digits. The digest word holds the first byte in its top eight bits.
\<close>

definition hex_digit :: "nat \<Rightarrow> char" where
  "hex_digit n = ''0123456789abcdef'' ! (n mod 16)"

definition hexdigest :: "128 word \<Rightarrow> string" where
  "hexdigest d = map (\<lambda>i. hex_digit (unat (drop_bit (4 * (31 - i)) d AND 0xF))) [0..<32]"

subsection \<open>The generator\<close>

definition mbr_signature :: bytes where
  "mbr_signature = [0x55, 0xAA]"

definition mbr_length :: int where
  "mbr_length = 0x200"

definition boot_code_length :: int where
  "boot_code_length = 0x1B8"

definition architecture :: "env \<Rightarrow> string" where
  "architecture E = (if \<not> is_64bit E then ''intel'' else ''intel64'')"

text \<open>Lines 68 to 72: the loop over \<^verbatim>\<open>enumerate(partition_entries)\<close>.\<close>

fun partition_info_loop ::
  "env \<Rightarrow> string \<Rightarrow> (nat \<times> partition_entry) list \<Rightarrow> exn + string" where
  "partition_info_loop E partition_info [] = Inr partition_info"
| "partition_info_loop E partition_info ((i, partition_entry_object) # rest) =
     (case entry_str E (set_index i partition_entry_object) of
        Inl e \<Rightarrow> Inl e
      | Inr s \<Rightarrow> partition_info_loop E (partition_info @ s) rest)"

text \<open>Lines 63 to 82: the branch that builds the row.\<close>

definition build_row ::
  "env \<Rightarrow> int \<Rightarrow> partition_table \<Rightarrow> bytes \<Rightarrow> bytes \<Rightarrow> exn + row" where
  "build_row E offset partition_table full_mbr boot_code =
     (let bootcode_hash = hexdigest (md5 E boot_code);
          full_bootcode_hash = hexdigest (md5 E full_mbr);
          partition_entries = [FirstEntry partition_table, SecondEntry partition_table,
                               ThirdEntry partition_table, FourthEntry partition_table]
      in case partition_info_loop E [] (enumerate 0 partition_entries) of
           Inl e \<Rightarrow> Inl e
         | Inr partition_info \<Rightarrow>
             (case get_disk_signature E partition_table of
                Inl e \<Rightarrow> Inl e
              | Inr signature \<Rightarrow>
                  Inr \<lparr>physical_offset = offset,
                       disk_signature = signature,
                       bootcode_md5 = bootcode_hash,
                       bootcode_full_md5 = full_bootcode_hash,
                       partition_entries_info = partition_info,
                       disasm = Disassembly boot_code 0 (architecture E),
                       hexdump = boot_code\<rparr>))"

text \<open>
  Lines 59 to 84. The local \<^verbatim>\<open>all_zeros\<close> is \<open>None\<close> while it is unbound; it is assigned
  only under \<^verbatim>\<open>if boot_code:\<close> and otherwise keeps what the previous iteration left.
\<close>

definition validate_and_emit ::
  "env \<Rightarrow> bool option \<Rightarrow> int \<Rightarrow> partition_table \<Rightarrow> bytes \<Rightarrow> bytes
     \<Rightarrow> event list \<times> (exn + bool option)" where
  "validate_and_emit E all_zeros offset partition_table full_mbr boot_code =
     (let all_zeros = (if boot_code \<noteq> []
                       then Some (count boot_code [0x00] = length boot_code)
                       else all_zeros)
      in case all_zeros of
           None \<Rightarrow> ([], Inl (UnboundLocalError ''all_zeros''))
         | Some z \<Rightarrow>
             if \<not> z then
               (case build_row E offset partition_table full_mbr boot_code of
                  Inl e \<Rightarrow> ([], Inl e)
                | Inr r \<Rightarrow> ([Yield 0 r], Inr all_zeros))
             else
               ([Log LOGLEVEL_VV ''Not a valid MBR: Data all zeroed out : '' offset],
                Inr all_zeros))"

text \<open>Lines 53 to 57, then the rest of the loop body; \<open>hit\<close> is \<^verbatim>\<open>(offset, _value)\<close>.\<close>

definition loop_body ::
  "env \<Rightarrow> bool option \<Rightarrow> int \<times> bytes \<Rightarrow> event list \<times> (exn + bool option)" where
  "loop_body E all_zeros hit =
     (let offset = fst hit;
          mbr_start_offset = offset - (mbr_length - int (length mbr_signature));
          partition_table = context_object mbr_start_offset (name (layer E))
      in case read (layer E) mbr_start_offset mbr_length True of
           Inl e \<Rightarrow> ([ReadCall mbr_start_offset mbr_length True], Inl e)
         | Inr full_mbr \<Rightarrow>
             (let boot_code = take (nat boot_code_length) full_mbr
              in case validate_and_emit E all_zeros offset partition_table full_mbr boot_code of
                   (events, r) \<Rightarrow> (ReadCall mbr_start_offset mbr_length True # events, r)))"

text \<open>
  The \<^verbatim>\<open>for\<close> of line 52 over the hits the scan yields. The result is the events in order
  and either the exception that ended the loop or the value \<^verbatim>\<open>all_zeros\<close> has at its end.
\<close>

fun run_loop ::
  "env \<Rightarrow> bool option \<Rightarrow> (int \<times> bytes) list \<Rightarrow> event list \<times> (exn + bool option)" where
  "run_loop E all_zeros [] = ([], Inr all_zeros)"
| "run_loop E all_zeros (hit # hits) =
     (case loop_body E all_zeros hit of
        (events, Inl e) \<Rightarrow> (events, Inl e)
      | (events, Inr all_zeros') \<Rightarrow>
          (case run_loop E all_zeros' hits of (events', r) \<Rightarrow> (events @ events', r)))"

text \<open>
  \<^verbatim>\<open>_generator\<close>, consumed to its end: the events, and the exception that left it, if one
  did. \<^verbatim>\<open>all_zeros\<close> is unbound when the loop starts.
\<close>

definition generator :: "env \<Rightarrow> event list \<times> exn option" where
  "generator E =
     (case run_loop E None (scan (layer E) [mbr_signature]) of
        (events, Inl e) \<Rightarrow> (events, Some e)
      | (events, Inr _) \<Rightarrow> (events, None))"

subsection \<open>An address space over a byte buffer\<close>

text \<open>
  Modelled from the spec: the AddressSpace of sections 3 and 6, whose code is not under
  src/. \<open>space_read\<close> returns exactly \<open>length\<close> bytes, zero-filling past the end of the
  space when \<open>pad\<close> is set; the spec calls a negative offset invalid and says no more, and
  here such a read fails. The scan, \<open>scan_from 0\<close>, reports in ascending order every
  offset at which one of the patterns stands.
\<close>

definition space_read :: "bytes \<Rightarrow> int \<Rightarrow> int \<Rightarrow> bool \<Rightarrow> exn + bytes" where
  "space_read mem offset len pad =
     (if offset < 0 \<or> len < 0 then Inl (External ''InvalidAddressException'')
      else let data = take (nat len) (drop (nat offset) mem)
           in if length data = nat len then Inr data
              else if pad then Inr (data @ replicate (nat len - length data) 0x00)
              else Inl (External ''InvalidAddressException''))"

fun scan_from :: "int \<Rightarrow> bytes \<Rightarrow> bytes list \<Rightarrow> (int \<times> bytes) list" where
  "scan_from i [] patterns = []"
| "scan_from i (b # bs) patterns =
     map (\<lambda>p. (i, p)) (filter (\<lambda>p. p \<noteq> [] \<and> take (length p) (b # bs) = p) patterns)
     @ scan_from (i + 1) bs patterns"

definition address_space :: "string \<Rightarrow> bytes \<Rightarrow> layer" where
  "address_space layer_name mem =
     \<lparr>name = layer_name, scan = scan_from 0 mem, read = space_read mem\<rparr>"

text \<open>
  Modelled from the spec: the contract section 6 asks of a layer's padded read, exactly as
  many bytes as were asked for.
\<close>

definition honours_padding :: "layer \<Rightarrow> bool" where
  "honours_padding L =
     (\<forall>offset len buf. read L offset len True = Inr buf \<longrightarrow> int (length buf) = len)"

subsection \<open>Example surroundings\<close>

text \<open>
  Stand-ins for the three parameter functions, for evaluating the generator on a concrete
  buffer. \<open>describe_entry\<close> reads the sixteen bytes of the entry without padding and shows
  the attached index and the partition-type byte (the fifth byte of the entry, section 3);
  \<open>describe_signature\<close> shows the four bytes at \<open>0x1B8\<close> as a little-endian value;
  \<open>length_digest\<close> stands for the digest function. None of them is the repository's code.
\<close>

definition hex_byte :: "byte \<Rightarrow> string" where
  "hex_byte b = [hex_digit (unat b div 16), hex_digit (unat b)]"

definition describe_entry :: "bytes \<Rightarrow> partition_entry \<Rightarrow> exn + string" where
  "describe_entry mem e =
     (case space_read mem (entry_offset e) 16 False of
        Inl x \<Rightarrow> Inl x
      | Inr raw \<Rightarrow>
          Inr (''['' @ (case entry_index e of None \<Rightarrow> ''?'' | Some i \<Rightarrow> [hex_digit i])
               @ '':'' @ hex_byte (raw ! 4) @ '']''))"

definition describe_signature :: "bytes \<Rightarrow> partition_table \<Rightarrow> exn + string" where
  "describe_signature mem t =
     (case space_read mem (table_offset t + 0x1B8) 4 False of
        Inl x \<Rightarrow> Inl x
      | Inr raw \<Rightarrow> Inr (concat (map hex_byte (rev raw))))"

definition length_digest :: "bytes \<Rightarrow> 128 word" where
  "length_digest bs = of_nat (length bs)"

definition example_env :: "bytes \<Rightarrow> env" where
  "example_env mem =
     \<lparr>layer = address_space ''memory_layer'' mem,
      is_64bit = False,
      entry_str = describe_entry mem,
      get_disk_signature = describe_signature mem,
      md5 = length_digest\<rparr>"

text \<open>
  Two buffers, after the scenarios of section 8 of the spec. \<open>blank_disk\<close> is zero
  but for the magic at offset 510. \<open>bootable_disk\<close> is one sector: 440 bytes of boot code
  \<open>0x01\<close>, the disk signature bytes \<open>01 02 03 04\<close>, two zero bytes, entry 0 (active, type
  \<open>0x07\<close>, start 2048, 204800 sectors), three zeroed entries and the magic.
\<close>

definition blank_disk :: bytes where
  "blank_disk = replicate 510 0x00 @ [0x55, 0xAA] @ replicate 466 0x00"

definition bootable_disk :: bytes where
  "bootable_disk =
     replicate 440 0x01 @ [0x01, 0x02, 0x03, 0x04] @ [0x00, 0x00]
     @ [0x80, 0x20, 0x21, 0x00, 0x07, 0xFE, 0xFF, 0xFF, 0x00, 0x08, 0x00, 0x00,
        0x00, 0x20, 0x03, 0x00]
     @ replicate 48 0x00 @ [0x55, 0xAA]"

text \<open>
  A layer that answers from a script: the hits it reports, and for each offset what a read
  there returns; a read anywhere else raises.
\<close>

definition scripted_layer :: "(int \<times> bytes) list \<Rightarrow> (int \<times> (exn + bytes)) list \<Rightarrow> layer" where
  "scripted_layer hits answers =
     \<lparr>name = ''memory_layer'',
      scan = (\<lambda>patterns. hits),
      read = (\<lambda>offset len pad.
        case map_of answers offset of
          Some a \<Rightarrow> a
        | None \<Rightarrow> Inl (External ''InvalidAddressException''))\<rparr>"


definition wrapped_env :: env where
  "wrapped_env = (example_env bootable_disk)\<lparr>layer :=
     scripted_layer [(0, [0x55, 0xAA])] [(- 510, Inr bootable_disk)]\<rparr>"


text \<open>The row that the generator yields on \<open>bootable_disk\<close> with these stand-ins.\<close>

definition bootable_row :: row where
  "bootable_row =
     \<lparr>physical_offset = 510,
      disk_signature = ''04030201'',
      bootcode_md5 = ''000000000000000000000000000001b8'',
      bootcode_full_md5 = ''00000000000000000000000000000200'',
      partition_entries_info = ''[0:07][1:00][2:00][3:00]'',
      disasm = Disassembly (replicate 440 0x01) 0 ''intel'',
      hexdump = replicate 440 0x01\<rparr>"

section \<open>Properties\<close>

subsection \<open>The validator's zero test\<close>

lemma count_Nil: "count [] [b] = 0"
  by (simp add: count.simps)

lemma count_Cons: "count (x # xs) [b] = (if x = b then 1 else 0) + count xs [b]"
  by (subst count.simps) (simp add: drop_Suc)

lemma count_single: "count bs [b] = length (filter (\<lambda>x. x = b) bs)"
  by (induction bs) (simp_all add: count_Nil count_Cons)

lemma filter_all_length: "(length (filter P xs) = length xs) = list_all P xs"
proof (induction xs)
  case Nil
  show ?case by simp
next
  case (Cons x xs)
  have "length (filter P xs) \<noteq> Suc (length xs)"
    using length_filter_le [of P xs] by linarith
  with Cons show ?case by auto
qed



subsection \<open>The loop body, unfolded\<close>

lemma loop_body_eq:
  "loop_body E az (p, v) =
     (case read (layer E) (p - 510) 512 True of
        Inl e \<Rightarrow> ([ReadCall (p - 510) 512 True], Inl e)
      | Inr full_mbr \<Rightarrow>
          (case validate_and_emit E az p (context_object (p - 510) (name (layer E)))
                  full_mbr (take 440 full_mbr) of
             (events, r) \<Rightarrow> (ReadCall (p - 510) 512 True # events, r)))"
  by (simp add: loop_body_def Let_def mbr_signature_def mbr_length_def boot_code_length_def
        split: sum.splits)

lemma validate_and_emit_cases:
  "validate_and_emit E az offset t full_mbr boot_code =
     (if boot_code = [] then
        (case az of
           None \<Rightarrow> ([], Inl (UnboundLocalError ''all_zeros''))
         | Some z \<Rightarrow>
             if \<not> z then
               (case build_row E offset t full_mbr boot_code of
                  Inl e \<Rightarrow> ([], Inl e)
                | Inr r \<Rightarrow> ([Yield 0 r], Inr az))
             else ([Log LOGLEVEL_VV ''Not a valid MBR: Data all zeroed out : '' offset], Inr az))
      else if every_byte_zero boot_code then
        ([Log LOGLEVEL_VV ''Not a valid MBR: Data all zeroed out : '' offset], Inr (Some True))
      else
        (case build_row E offset t full_mbr boot_code of
           Inl e \<Rightarrow> ([], Inl e)
         | Inr r \<Rightarrow> ([Yield 0 r], Inr (Some False))))"
  by (simp add: validate_and_emit_def Let_def count_single filter_all_length
        every_byte_zero_def split: option.splits sum.splits)

lemma validate_and_emit_no_read:
  "read_calls (fst (validate_and_emit E az offset t full_mbr boot_code)) = []"
  by (simp add: validate_and_emit_cases split: option.splits sum.splits)

lemma validate_and_emit_yield:
  "Yield n r \<in> set (fst (validate_and_emit E az offset t full_mbr boot_code)) \<Longrightarrow>
     n = 0 \<and> build_row E offset t full_mbr boot_code = Inr r"
  by (auto simp: validate_and_emit_cases split: if_splits option.splits sum.splits)

lemma loop_body_read_calls:
  "read_calls (fst (loop_body E az (p, v))) = [(p - 510, 512, True)]"
  by (simp add: loop_body_eq validate_and_emit_no_read split: sum.splits prod.splits)
    (metis fst_conv validate_and_emit_no_read)

lemma loop_body_yield:
  assumes "Yield n r \<in> set (fst (loop_body E az (p, v)))"
  shows "\<exists>full_mbr. read (layer E) (p - 510) 512 True = Inr full_mbr \<and> n = 0 \<and>
           build_row E p (context_object (p - 510) (name (layer E))) full_mbr
             (take 440 full_mbr) = Inr r"
proof (cases "read (layer E) (p - 510) 512 True")
  case (Inl e)
  with assms show ?thesis by (simp add: loop_body_eq)
next
  case (Inr full_mbr)
  with assms have "Yield n r \<in> set (fst (validate_and_emit E az p
      (context_object (p - 510) (name (layer E))) full_mbr (take 440 full_mbr)))"
    by (auto simp: loop_body_eq split: prod.splits)
  with Inr show ?thesis by (simp add: validate_and_emit_yield)
qed

lemma run_loop_event_origin:
  "ev \<in> set (fst (run_loop E az hits)) \<Longrightarrow>
     \<exists>hit \<in> set hits. \<exists>az'. ev \<in> set (fst (loop_body E az' hit))"
proof (induction hits arbitrary: az)
  case Nil
  then show ?case by simp
next
  case (Cons hit hits)
  obtain evs res where lb: "loop_body E az hit = (evs, res)" by (cases "loop_body E az hit")
  show ?case
  proof (cases res)
    case (Inl e)
    with lb Cons.prems have "ev \<in> set (fst (loop_body E az hit))" by simp
    then show ?thesis by auto
  next
    case (Inr az')
    obtain evs' res' where rl: "run_loop E az' hits = (evs', res')"
      by (cases "run_loop E az' hits")
    with lb Inr Cons.prems have "ev \<in> set evs \<or> ev \<in> set evs'" by simp
    then show ?thesis
    proof
      assume "ev \<in> set evs"
      with lb have "ev \<in> set (fst (loop_body E az hit))" by simp
      then show ?thesis by auto
    next
      assume "ev \<in> set evs'"
      with rl have "ev \<in> set (fst (run_loop E az' hits))" by simp
      from Cons.IH [OF this] show ?thesis by auto
    qed
  qed
qed

lemma generator_event_origin:
  "ev \<in> set (fst (generator E)) \<Longrightarrow>
     \<exists>hit \<in> set (scan (layer E) [mbr_signature]). \<exists>az. ev \<in> set (fst (loop_body E az hit))"
proof -
  assume a: "ev \<in> set (fst (generator E))"
  have "fst (generator E) = fst (run_loop E None (scan (layer E) [mbr_signature]))"
    by (simp add: generator_def split: prod.splits sum.splits)
  with a show ?thesis by (simp add: run_loop_event_origin)
qed


lemma build_row_fields:
  "build_row E offset t full_mbr boot_code = Inr r \<Longrightarrow>
     physical_offset r = offset \<and> hexdump r = boot_code \<and>
     disasm r = Disassembly boot_code 0 (architecture E) \<and>
     bootcode_md5 r = hexdigest (md5 E boot_code) \<and>
     bootcode_full_md5 r = hexdigest (md5 E full_mbr)"
  by (auto simp: build_row_def Let_def split: sum.splits)

lemma build_row_entries:
  "build_row E offset t full_mbr boot_code = Inr r \<Longrightarrow>
     \<exists>s0 s1 s2 s3.
       entry_str E (set_index 0 (FirstEntry t)) = Inr s0 \<and>
       entry_str E (set_index 1 (SecondEntry t)) = Inr s1 \<and>
       entry_str E (set_index 2 (ThirdEntry t)) = Inr s2 \<and>
       entry_str E (set_index 3 (FourthEntry t)) = Inr s3 \<and>
       partition_entries_info r = s0 @ s1 @ s2 @ s3"
  by (auto simp: build_row_def Let_def enumerate_simps numeral_eq_Suc split: sum.splits)

lemma hex_digit_lowercase: "hex_digit n \<in> set ''0123456789abcdef''"
  unfolding hex_digit_def by (rule nth_mem) simp

lemma length_hexdigest: "length (hexdigest d) = 32"
  by (simp add: hexdigest_def)

lemma set_hexdigest: "set (hexdigest d) \<subseteq> set ''0123456789abcdef''"
  using hex_digit_lowercase by (auto simp: hexdigest_def simp del: set_simps list.set)

subsection \<open>The example address space\<close>

lemma address_space_honours_padding: "honours_padding (address_space layer_name mem)"
  by (auto simp: honours_padding_def address_space_def space_read_def Let_def
      split: if_splits)

lemma length_bootable_disk: "length bootable_disk = 512"
  by (simp add: bootable_disk_def)

lemma layer_example_env: "layer (example_env mem) = address_space ''memory_layer'' mem"
  by (simp add: example_env_def)

lemma read_bootable_disk:
  "read (layer (example_env bootable_disk)) 0 512 True = Inr bootable_disk"
  by (simp add: example_env_def address_space_def space_read_def length_bootable_disk)

lemma read_blank_disk:
  "read (layer (example_env blank_disk)) 0 512 True = Inr (replicate 510 0x00 @ [0x55, 0xAA])"
  by (simp add: example_env_def address_space_def space_read_def blank_disk_def)

lemma generator_bootable_disk:
  "generator (example_env bootable_disk) = ([ReadCall 0 512 True, Yield 0 bootable_row], None)"
  by code_simp


subsection \<open>The sector read\<close>

text \<open>
  C2. For a match at \<open>p\<close> the loop body asks the layer for one read, of 512 bytes at
  \<open>p - 510\<close> with padding; the boot code it goes on with is the first 440 bytes of the
  buffer returned; and on a layer that answers a padded read with as many bytes as were
  asked for, the buffer has exactly 512 bytes and the boot code exactly 440.
\<close>

theorem sector_read_request:
  "read_calls (fst (loop_body E all_zeros (p, v))) = [(p - 510, 512, True)] \<and>
   (\<forall>full_mbr. read (layer E) (p - 510) 512 True = Inr full_mbr \<longrightarrow>
      loop_body E all_zeros (p, v) =
        (case validate_and_emit E all_zeros p (context_object (p - 510) (name (layer E)))
                full_mbr (take 440 full_mbr) of
           (events, r) \<Rightarrow> (ReadCall (p - 510) 512 True # events, r)) \<and>
      (honours_padding (layer E) \<longrightarrow>
         length full_mbr = 512 \<and> length (take 440 full_mbr) = 440))"
proof (intro conjI allI impI)
  show "read_calls (fst (loop_body E all_zeros (p, v))) = [(p - 510, 512, True)]"
    by (rule loop_body_read_calls)
next
  fix full_mbr
  assume r: "read (layer E) (p - 510) 512 True = Inr full_mbr"
  then show "loop_body E all_zeros (p, v) =
        (case validate_and_emit E all_zeros p (context_object (p - 510) (name (layer E)))
                full_mbr (take 440 full_mbr) of
           (events, r) \<Rightarrow> (ReadCall (p - 510) 512 True # events, r))"
    by (simp add: loop_body_eq)
  assume "honours_padding (layer E)"
  with r have "int (length full_mbr) = 512"
    unfolding honours_padding_def by blast
  then show "length full_mbr = 512" by simp
  then show "length (take 440 full_mbr) = 440" by simp
qed

theorem sector_read_request_witness:
  "read (layer (example_env bootable_disk)) (510 - 510) 512 True = Inr bootable_disk
   \<and> honours_padding (layer (example_env bootable_disk))
   \<and> read_calls (fst (loop_body (example_env bootable_disk) None (510, [0x55, 0xAA])))
       = [(0, 512, True)]
   \<and> length bootable_disk = 512
   \<and> length (take 440 bootable_disk) = 440"
proof -
  have h1: "read (layer (example_env bootable_disk)) (510 - 510) 512 True = Inr bootable_disk"
    using read_bootable_disk by simp
  have h2: "honours_padding (layer (example_env bootable_disk))"
    by (simp add: layer_example_env address_space_honours_padding)
  note t = sector_read_request [of "example_env bootable_disk" None 510 "[0x55, 0xAA]"]
  from t have "read_calls (fst (loop_body (example_env bootable_disk) None (510, [0x55, 0xAA])))
       = [(510 - 510, 512, True)]"
    by (rule conjunct1)
  then have c1: "read_calls (fst (loop_body (example_env bootable_disk) None (510, [0x55, 0xAA])))
       = [(0, 512, True)]"
    by simp
  from t h1 h2 have c2: "length bootable_disk = 512 \<and> length (take 440 bootable_disk) = 440"
    by blast
  from h1 h2 c1 c2 show ?thesis by blast
qed

subsection \<open>Rejected hits\<close>

text \<open>
  C3. A hit whose 440-byte boot code is all zero yields no row: the loop body logs one
  entry at level \<^verbatim>\<open>LOGLEVEL_VV\<close> that carries the offset, and the loop goes on with the
  remaining hits.
\<close>

theorem all_zero_boot_code_rejected:
  assumes "read (layer E) (p - 510) 512 True = Inr full_mbr"
      and "length (take 440 full_mbr) = 440"
      and "every_byte_zero (take 440 full_mbr)"
  shows "loop_body E all_zeros (p, v) =
           ([ReadCall (p - 510) 512 True,
             Log LOGLEVEL_VV ''Not a valid MBR: Data all zeroed out : '' p],
            Inr (Some True))
         \<and> yielded (fst (loop_body E all_zeros (p, v))) = []
         \<and> logged (fst (loop_body E all_zeros (p, v))) =
             [(LOGLEVEL_VV, ''Not a valid MBR: Data all zeroed out : '', p)]
         \<and> run_loop E all_zeros ((p, v) # hits) =
             (case run_loop E (Some True) hits of
                (events, r) \<Rightarrow>
                  (ReadCall (p - 510) 512 True
                   # Log LOGLEVEL_VV ''Not a valid MBR: Data all zeroed out : '' p
                   # events, r))"
proof -
  from assms(2) have ne: "take 440 full_mbr \<noteq> []" by auto
  have lb: "loop_body E all_zeros (p, v) =
           ([ReadCall (p - 510) 512 True,
             Log LOGLEVEL_VV ''Not a valid MBR: Data all zeroed out : '' p],
            Inr (Some True))"
    using assms(1) assms(3) ne by (simp add: loop_body_eq validate_and_emit_cases)
  then show ?thesis by (simp split: prod.splits)
qed

theorem all_zero_boot_code_rejected_witness:
  "read (layer (example_env blank_disk)) (510 - 510) 512 True
     = Inr (replicate 510 0x00 @ [0x55, 0xAA])
   \<and> length (take 440 (replicate 510 0x00 @ [0x55, 0xAA :: byte])) = 440
   \<and> every_byte_zero (take 440 (replicate 510 0x00 @ [0x55, 0xAA]))
   \<and> scan (layer (example_env blank_disk)) [mbr_signature] = [(510, [0x55, 0xAA])]
   \<and> run_loop (example_env blank_disk) None [(510, [0x55, 0xAA])] =
        ([ReadCall 0 512 True,
          Log LOGLEVEL_VV ''Not a valid MBR: Data all zeroed out : '' 510],
         Inr (Some True))
   \<and> generator (example_env blank_disk) =
        ([ReadCall 0 512 True,
          Log LOGLEVEL_VV ''Not a valid MBR: Data all zeroed out : '' 510],
         None)"
proof -
  have h1: "read (layer (example_env blank_disk)) (510 - 510) 512 True
     = Inr (replicate 510 0x00 @ [0x55, 0xAA])"
    using read_blank_disk by simp
  have h2: "length (take 440 (replicate 510 0x00 @ [0x55, 0xAA :: byte])) = 440" by simp
  have h3: "every_byte_zero (take 440 (replicate 510 0x00 @ [0x55, 0xAA]))"
    by (simp add: every_byte_zero_def list_all_iff)
  have h4: "scan (layer (example_env blank_disk)) [mbr_signature] = [(510, [0x55, 0xAA])]"
    by code_simp
  show ?thesis
    using h1 h2 h3 h4
      all_zero_boot_code_rejected [OF h1 h2 h3, of None "[0x55, 0xAA]" "[]"]
    by (simp add: generator_def)
qed

text \<open>
  C4. The claim asks that an empty boot-code slice be rejected without failure and without
  state from earlier hits. The generator assigns \<^verbatim>\<open>all_zeros\<close> only under
  \<^verbatim>\<open>if boot_code:\<close>, so on a layer whose read returns no bytes the first hit raises
  \<^verbatim>\<open>UnboundLocalError\<close>, and a later hit inherits the verdict of the hit before it: after
  an accepted sector, the empty slice is yielded as a row.
\<close>

theorem unassigned_verdict_on_empty_boot_code:
  "generator ((example_env [])\<lparr>layer :=
       scripted_layer [(510, mbr_signature)] [(0, Inr [])]\<rparr>)
     = ([ReadCall 0 512 True], Some (UnboundLocalError ''all_zeros''))
   \<and> map (\<lambda>r. (physical_offset r, hexdump r))
        (yielded (fst (generator ((example_env (bootable_disk @ bootable_disk))\<lparr>layer :=
           scripted_layer [(510, mbr_signature), (1022, mbr_signature)]
             [(0, Inr bootable_disk), (512, Inr [])]\<rparr>))))
     = [(510, replicate 440 0x01), (1022, [])]"
  by code_simp

subsection \<open>Rows\<close>

lemma generator_yield:
  assumes "Yield n r \<in> set (fst (generator E))"
  shows "\<exists>p v full_mbr. (p, v) \<in> set (scan (layer E) [mbr_signature]) \<and>
           read (layer E) (p - 510) 512 True = Inr full_mbr \<and> n = 0 \<and>
           build_row E p (context_object (p - 510) (name (layer E))) full_mbr
             (take 440 full_mbr) = Inr r"
proof -
  from generator_event_origin [OF assms] obtain hit az
    where h: "hit \<in> set (scan (layer E) [mbr_signature])"
      and y: "Yield n r \<in> set (fst (loop_body E az hit))" by blast
  obtain p v where hit: "hit = (p, v)" by (cases hit)
  from loop_body_yield [OF y [unfolded hit]] h hit show ?thesis by blast
qed

lemma yield_bootable_row:
  "Yield 0 bootable_row \<in> set (fst (generator (example_env bootable_disk)))"
  by (simp add: generator_bootable_disk)

lemma row_reports_match_offset:
  assumes "Yield n r \<in> set (fst (generator E))"
  shows "\<exists>p v. (p, v) \<in> set (scan (layer E) [mbr_signature]) \<and> physical_offset r = p"
proof -
  from generator_yield [OF assms] obtain p v full_mbr
    where h: "(p, v) \<in> set (scan (layer E) [mbr_signature])"
      and b: "build_row E p (context_object (p - 510) (name (layer E))) full_mbr
             (take 440 full_mbr) = Inr r" by blast
  from build_row_fields [OF b] h show ?thesis by blast
qed

text \<open>
  C1. The claim asks that the physical-offset field of a row be the sector start, the match
  offset minus 510. The generator puts the match offset itself there (line 75): on the
  one-sector buffer \<open>bootable_disk\<close> the sector is read at offset 0 and the row reports
  510, where the magic stands.
\<close>

theorem reported_offset_is_match_offset:
  "map physical_offset (yielded (fst (generator (example_env bootable_disk)))) = [510]
   \<and> read_calls (fst (generator (example_env bootable_disk))) = [(0, 512, True)]"
  by (simp add: generator_bootable_disk bootable_row_def)

text \<open>
  C5. Every row the generator yields describes all four partition entries of its hit: the
  entry objects at \<open>0x1BE\<close>, \<open>0x1CE\<close>, \<open>0x1DE\<close> and \<open>0x1EE\<close> from the sector start, with
  the indices 0, 1, 2 and 3 attached in that order, and the description is their four
  strings in that order. Nothing is asked of an entry's type byte: on \<open>bootable_disk\<close>
  entries 1 to 3 are zeroed and still described.
\<close>

theorem all_four_entries_described:
  assumes "Yield n r \<in> set (fst (generator E))"
  shows "\<exists>p v s0 s1 s2 s3.
           (p, v) \<in> set (scan (layer E) [mbr_signature]) \<and> physical_offset r = p \<and>
           entry_str E \<lparr>entry_layer_name = name (layer E), entry_offset = p - 510 + 0x1BE,
                        entry_index = Some 0\<rparr> = Inr s0 \<and>
           entry_str E \<lparr>entry_layer_name = name (layer E), entry_offset = p - 510 + 0x1CE,
                        entry_index = Some 1\<rparr> = Inr s1 \<and>
           entry_str E \<lparr>entry_layer_name = name (layer E), entry_offset = p - 510 + 0x1DE,
                        entry_index = Some 2\<rparr> = Inr s2 \<and>
           entry_str E \<lparr>entry_layer_name = name (layer E), entry_offset = p - 510 + 0x1EE,
                        entry_index = Some 3\<rparr> = Inr s3 \<and>
           partition_entries_info r = s0 @ s1 @ s2 @ s3"
proof -
  from generator_yield [OF assms] obtain p v full_mbr
    where h: "(p, v) \<in> set (scan (layer E) [mbr_signature])"
      and b: "build_row E p (context_object (p - 510) (name (layer E))) full_mbr
             (take 440 full_mbr) = Inr r" by blast
  from build_row_fields [OF b] have "physical_offset r = p" by simp
  with build_row_entries [OF b] h show ?thesis
    by (simp add: set_index_def FirstEntry_def SecondEntry_def ThirdEntry_def
        FourthEntry_def member_entry_def context_object_def) blast
qed

theorem all_four_entries_described_witness:
  "Yield 0 bootable_row \<in> set (fst (generator (example_env bootable_disk)))
   \<and> partition_entries_info bootable_row = ''[0:07][1:00][2:00][3:00]''
   \<and> (\<exists>p v s0 s1 s2 s3.
           (p, v) \<in> set (scan (layer (example_env bootable_disk)) [mbr_signature]) \<and>
           physical_offset bootable_row = p \<and>
           entry_str (example_env bootable_disk)
             \<lparr>entry_layer_name = name (layer (example_env bootable_disk)),
              entry_offset = p - 510 + 0x1BE, entry_index = Some 0\<rparr> = Inr s0 \<and>
           entry_str (example_env bootable_disk)
             \<lparr>entry_layer_name = name (layer (example_env bootable_disk)),
              entry_offset = p - 510 + 0x1CE, entry_index = Some 1\<rparr> = Inr s1 \<and>
           entry_str (example_env bootable_disk)
             \<lparr>entry_layer_name = name (layer (example_env bootable_disk)),
              entry_offset = p - 510 + 0x1DE, entry_index = Some 2\<rparr> = Inr s2 \<and>
           entry_str (example_env bootable_disk)
             \<lparr>entry_layer_name = name (layer (example_env bootable_disk)),
              entry_offset = p - 510 + 0x1EE, entry_index = Some 3\<rparr> = Inr s3 \<and>
           partition_entries_info bootable_row = s0 @ s1 @ s2 @ s3)"
proof -
  have h: "Yield 0 bootable_row \<in> set (fst (generator (example_env bootable_disk)))"
    by (rule yield_bootable_row)
  have i: "partition_entries_info bootable_row = ''[0:07][1:00][2:00][3:00]''"
    by (simp add: bootable_row_def)
  from h i all_four_entries_described [OF h] show ?thesis by blast
qed

text \<open>
  C6. On a layer that honours padded reads, every row's boot-code digest is the hexdigest
  of the digest of the 440-byte boot code alone, its full digest the hexdigest of the digest
  of the 512-byte sector alone, each of 32 characters among \<open>0-9a-f\<close>; each is computed
  from its own bytes by a fresh call of the digest function.
\<close>

theorem digests_of_boot_code_and_sector:
  assumes "honours_padding (layer E)"
      and "Yield n r \<in> set (fst (generator E))"
  shows "\<exists>p v full_mbr.
           (p, v) \<in> set (scan (layer E) [mbr_signature]) \<and>
           read (layer E) (p - 510) 512 True = Inr full_mbr \<and>
           length full_mbr = 512 \<and> length (take 440 full_mbr) = 440 \<and>
           hexdump r = take 440 full_mbr \<and>
           bootcode_md5 r = hexdigest (md5 E (take 440 full_mbr)) \<and>
           bootcode_full_md5 r = hexdigest (md5 E full_mbr) \<and>
           length (bootcode_md5 r) = 32 \<and> length (bootcode_full_md5 r) = 32 \<and>
           set (bootcode_md5 r) \<subseteq> set ''0123456789abcdef'' \<and>
           set (bootcode_full_md5 r) \<subseteq> set ''0123456789abcdef''"
proof -
  from generator_yield [OF assms(2)] obtain p v full_mbr
    where h: "(p, v) \<in> set (scan (layer E) [mbr_signature])"
      and rd: "read (layer E) (p - 510) 512 True = Inr full_mbr"
      and b: "build_row E p (context_object (p - 510) (name (layer E))) full_mbr
             (take 440 full_mbr) = Inr r" by blast
  from assms(1) rd have "int (length full_mbr) = 512"
    unfolding honours_padding_def by blast
  then have len: "length full_mbr = 512" by simp
  then have len': "length (take 440 full_mbr) = 440" by simp
  note f = build_row_fields [OF b]
  have d1: "bootcode_md5 r = hexdigest (md5 E (take 440 full_mbr))" using f by simp
  have d2: "bootcode_full_md5 r = hexdigest (md5 E full_mbr)" using f by simp
  have hx: "hexdump r = take 440 full_mbr" using f by simp
  have l1: "length (bootcode_md5 r) = 32" by (simp only: d1 length_hexdigest)
  have l2: "length (bootcode_full_md5 r) = 32" by (simp only: d2 length_hexdigest)
  have s1: "set (bootcode_md5 r) \<subseteq> set ''0123456789abcdef''"
    by (simp only: d1 set_hexdigest)
  have s2: "set (bootcode_full_md5 r) \<subseteq> set ''0123456789abcdef''"
    by (simp only: d2 set_hexdigest)
  from h rd len len' hx d1 d2 l1 l2 s1 s2 show ?thesis by blast
qed

theorem digests_of_boot_code_and_sector_witness:
  "honours_padding (layer (example_env bootable_disk))
   \<and> Yield 0 bootable_row \<in> set (fst (generator (example_env bootable_disk)))
   \<and> bootcode_md5 bootable_row = ''000000000000000000000000000001b8''
   \<and> bootcode_full_md5 bootable_row = ''00000000000000000000000000000200''
   \<and> (\<exists>p v full_mbr.
           (p, v) \<in> set (scan (layer (example_env bootable_disk)) [mbr_signature]) \<and>
           read (layer (example_env bootable_disk)) (p - 510) 512 True = Inr full_mbr \<and>
           length full_mbr = 512 \<and> length (take 440 full_mbr) = 440 \<and>
           hexdump bootable_row = take 440 full_mbr \<and>
           bootcode_md5 bootable_row
             = hexdigest (md5 (example_env bootable_disk) (take 440 full_mbr)) \<and>
           bootcode_full_md5 bootable_row
             = hexdigest (md5 (example_env bootable_disk) full_mbr) \<and>
           length (bootcode_md5 bootable_row) = 32 \<and>
           length (bootcode_full_md5 bootable_row) = 32 \<and>
           set (bootcode_md5 bootable_row) \<subseteq> set ''0123456789abcdef'' \<and>
           set (bootcode_full_md5 bootable_row) \<subseteq> set ''0123456789abcdef'')"
proof -
  have h1: "honours_padding (layer (example_env bootable_disk))"
    by (simp add: layer_example_env address_space_honours_padding)
  have h2: "Yield 0 bootable_row \<in> set (fst (generator (example_env bootable_disk)))"
    by (rule yield_bootable_row)
  have i: "bootcode_md5 bootable_row = ''000000000000000000000000000001b8''
      \<and> bootcode_full_md5 bootable_row = ''00000000000000000000000000000200''"
    by (simp add: bootable_row_def)
  from h1 h2 i digests_of_boot_code_and_sector [OF h1 h2] show ?thesis by blast
qed

subsection \<open>Matches in the first 510 bytes\<close>

lemma read_negative:
  "read (layer (example_env mem)) (0 - 510) 512 True
     = Inl (External ''InvalidAddressException'')"
  by (simp add: example_env_def address_space_def space_read_def)

text \<open>
  C7. The claim asks that a match below offset 510 be skipped or clamped. The generator has
  no such step. On an address space that begins with the magic, the scan reports offset 0
  and the generator asks for the read at \<open>-510\<close>; the address space refuses it and the
  exception ends the scan.
\<close>

theorem early_match_counterexample:
  "scan (layer (example_env ([0x55, 0xAA] @ replicate 510 0x01))) [mbr_signature]
     = [(0, [0x55, 0xAA])]
   \<and> generator (example_env ([0x55, 0xAA] @ replicate 510 0x01))
     = ([ReadCall (- 510) 512 True], Some (External ''InvalidAddressException''))"
  by code_simp

text \<open>
  C7, as amended. For a match at \<open>p < 510\<close> the sector start \<open>p - 510\<close> is negative and
  the loop body passes it to the layer unchanged, in its one read of 512 padded bytes; if
  the layer raises, the loop body ends with that exception, and if the layer answers, the
  hit is validated and emitted like any other.
\<close>

theorem early_match_read_at_negative_offset:
  assumes "p < 510"
  shows "p - 510 < 0
         \<and> read_calls (fst (loop_body E all_zeros (p, v))) = [(p - 510, 512, True)]
         \<and> (\<forall>e. read (layer E) (p - 510) 512 True = Inl e \<longrightarrow>
               loop_body E all_zeros (p, v) = ([ReadCall (p - 510) 512 True], Inl e))
         \<and> (\<forall>full_mbr. read (layer E) (p - 510) 512 True = Inr full_mbr \<longrightarrow>
               loop_body E all_zeros (p, v) =
                 (case validate_and_emit E all_zeros p
                         (context_object (p - 510) (name (layer E)))
                         full_mbr (take 440 full_mbr) of
                    (events, r) \<Rightarrow> (ReadCall (p - 510) 512 True # events, r)))"
proof (intro conjI allI impI)
  from assms show "p - 510 < 0" by simp
  show "read_calls (fst (loop_body E all_zeros (p, v))) = [(p - 510, 512, True)]"
    by (rule loop_body_read_calls)
next
  fix e
  assume "read (layer E) (p - 510) 512 True = Inl e"
  then show "loop_body E all_zeros (p, v) = ([ReadCall (p - 510) 512 True], Inl e)"
    by (simp add: loop_body_eq)
next
  fix full_mbr
  assume "read (layer E) (p - 510) 512 True = Inr full_mbr"
  then show "loop_body E all_zeros (p, v) =
                 (case validate_and_emit E all_zeros p
                         (context_object (p - 510) (name (layer E)))
                         full_mbr (take 440 full_mbr) of
                    (events, r) \<Rightarrow> (ReadCall (p - 510) 512 True # events, r))"
    by (simp add: loop_body_eq)
qed

theorem early_match_read_at_negative_offset_witness:
  "(0::int) < 510
   \<and> read (layer (example_env bootable_disk)) (0 - 510) 512 True
       = Inl (External ''InvalidAddressException'')
   \<and> read_calls (fst (loop_body (example_env bootable_disk) None (0, [0x55, 0xAA])))
       = [(- 510, 512, True)]
   \<and> loop_body (example_env bootable_disk) None (0, [0x55, 0xAA])
       = ([ReadCall (- 510) 512 True], Inl (External ''InvalidAddressException''))
   \<and> read (layer wrapped_env) (0 - 510) 512 True = Inr bootable_disk
   \<and> loop_body wrapped_env None (0, [0x55, 0xAA]) =
       (case validate_and_emit wrapped_env None 0
               (context_object (0 - 510) (name (layer wrapped_env)))
               bootable_disk (take 440 bootable_disk) of
          (events, r) \<Rightarrow> (ReadCall (0 - 510) 512 True # events, r))"
proof -
  have h: "(0::int) < 510" by simp
  note t = early_match_read_at_negative_offset
    [OF h, of "example_env bootable_disk" None "[0x55, 0xAA]"]
  note t' = early_match_read_at_negative_offset [OF h, of wrapped_env None "[0x55, 0xAA]"]
  have r: "read (layer (example_env bootable_disk)) (0 - 510) 512 True
       = Inl (External ''InvalidAddressException'')"
    by (rule read_negative)
  have r': "read (layer wrapped_env) (0 - 510) 512 True = Inr bootable_disk"
    by (simp add: wrapped_env_def scripted_layer_def)
  from t r
  have a: "loop_body (example_env bootable_disk) None (0, [0x55, 0xAA])
       = ([ReadCall (0 - 510) 512 True], Inl (External ''InvalidAddressException''))"
    by blast
  from t
  have b: "read_calls (fst (loop_body (example_env bootable_disk) None (0, [0x55, 0xAA])))
       = [(0 - 510, 512, True)]"
    by blast
  from t' r'
  have c: "loop_body wrapped_env None (0, [0x55, 0xAA]) =
       (case validate_and_emit wrapped_env None 0
               (context_object (0 - 510) (name (layer wrapped_env)))
               bootable_disk (take 440 bootable_disk) of
          (events, r) \<Rightarrow> (ReadCall (0 - 510) 512 True # events, r))"
    by blast
  have "(0::int) - 510 = - 510" by simp
  with h r r' a b c show ?thesis by (simp only:)
qed

subsection \<open>Determinism\<close>








subsection \<open>Failures\<close>






end
